theory Spec2Isabelle
  imports
    Main
    "HOL-Library.AList"
    "HOL-Library.Char_ord"
    "HOL-Library.List_Lexorder"
    "HOL-Library.Product_Lexorder"
begin

section \<open>The member repository of the data sink worker\<close>

text \<open>
  This theory embeds \<^verbatim>\<open>services/apps/data_sink_worker/src/repo/member.repo.ts\<close>.
  The class \<^verbatim>\<open>MemberRepository\<close> builds SQL statements and hands them to pg-promise.
  Every method of the class becomes a function that takes the stored tables (\<open>db\<close>) and
  the method's arguments and returns what the method resolves to, or the error it rejects
  with (\<open>Inl\<close>); a method that writes also returns the tables afterwards.  Values the
  method takes from its environment (\<^verbatim>\<open>new Date()\<close>, \<^verbatim>\<open>generateUUIDv1()\<close>) are
  arguments of the function.

  The storage engine is not part of the repository.  Each statement is embedded twice:
  as the text and parameter object the method passes to pg-promise, and as the rows that
  statement selects or changes in the tables.  Identifiers are opaque strings.

  Three methods write caller data into the statement text.  For them the rows are
  computed from the text written, by the reader \<open>read_pairs\<close> and by \<open>order_by\<close>
  below, where the text is one the model reads.  For every other text the answer of the
  engine is an argument of the method's function (\<open>engine\<close>): the model says nothing
  about what the engine does with such a text, and a statement proved for every
  \<open>engine\<close> holds whatever it does.
\<close>

subsection \<open>Rows and tables\<close>

text \<open>
  \<^verbatim>\<open>IMemberIdentity\<close> (from \<^verbatim>\<open>@crowd/types\<close>): the fields the repository reads.
\<close>

record IMemberIdentity =
  i_sourceId :: "string option"
  i_platform :: string
  i_username :: string

text \<open>
  What the column \<^verbatim>\<open>members."weakIdentities"\<close> holds: a JSON array of identities, or
  the empty JSON object (the reading of the literal \<^verbatim>\<open>'{}'\<close>).
\<close>

datatype jsonb = JArray "IMemberIdentity list" | JEmptyObject

text \<open>
  A row of \<^verbatim>\<open>members\<close>, with the attributes of the data model; \<open>m_reach\<close> is
  \<^verbatim>\<open>reach ->> 'total'\<close>, which may be null.  Time stamps are milliseconds.
\<close>

record IDbMember =
  m_id :: string
  m_tenantId :: string
  m_emails :: "string list"
  m_displayName :: string
  m_reach :: "int option"
  m_score :: int
  m_weakIdentities :: jsonb
  m_joinedAt :: int
  m_createdAt :: int
  m_updatedAt :: int

record MemberIdentityRow =
  mi_memberId :: string
  mi_tenantId :: string
  mi_integrationId :: string
  mi_platform :: string
  mi_sourceId :: "string option"
  mi_username :: string

record MemberSegmentRow =
  ms_memberId :: string
  ms_tenantId :: string
  ms_segmentId :: string

record db =
  members :: "IDbMember list"
  memberIdentities :: "MemberIdentityRow list"
  memberSegments :: "MemberSegmentRow list"

subsection \<open>Errors and the pg-promise query methods\<close>

datatype error =
    TypeError string
  | Error string
  | QueryResultError_noData
  | QueryResultError_multiple
  | SyntaxError
  | UniqueViolation
  | InvalidRowCount
  | DatatypeMismatch
  | RowCountMismatch nat nat

text \<open>
  \<^verbatim>\<open>oneOrNone\<close> resolves with the row, or null when there is none, and rejects when the
  query returns more than one row; \<^verbatim>\<open>one\<close> wants exactly one row; \<^verbatim>\<open>any\<close> takes
  what comes.
\<close>

definition oneOrNone :: "'r list \<Rightarrow> error + 'r option" where
  "oneOrNone rows =
     (case rows of
        [] \<Rightarrow> Inr None
      | [r] \<Rightarrow> Inr (Some r)
      | _ \<Rightarrow> Inl QueryResultError_multiple)"

definition one :: "'r list \<Rightarrow> error + 'r" where
  "one rows =
     (case rows of
        [] \<Rightarrow> Inl QueryResultError_noData
      | [r] \<Rightarrow> Inr r
      | _ \<Rightarrow> Inl QueryResultError_multiple)"

text \<open>
  A value of the parameter object of a statement, or of an object handed to the
  pg-promise helpers.  \<open>VJsonText ws\<close> is the string \<^verbatim>\<open>JSON.stringify(ws)\<close>;
  \<open>VObjArray ws\<close> is the array \<open>ws\<close> itself.
\<close>

datatype pval =
    VText string
  | VInt int
  | VNull
  | VTextArray "string list"
  | VObjArray "IMemberIdentity list"
  | VJsonText "IMemberIdentity list"

record query =
  q_text :: string
  q_params :: "(string \<times> pval) list"

text \<open>
  The answers of the engine to the statements of \<^verbatim>\<open>findIdentities\<close>,
  \<^verbatim>\<open>removeIdentities\<close> and the listing of \<^verbatim>\<open>getMemberIdsAndEmailsAndCount\<close> whose text
  the model does not read: any function of the statement and the tables.
\<close>

record engine =
  select_answer :: "query \<Rightarrow> db \<Rightarrow> error + (string \<times> string \<times> string) list"
  delete_answer :: "query \<Rightarrow> db \<Rightarrow> error + nat \<times> db"
  list_answer :: "query \<Rightarrow> db \<Rightarrow> error + (string \<times> string list) list"

subsection \<open>Strings\<close>

text \<open>\<^verbatim>\<open>Array.prototype.join\<close> and \<^verbatim>\<open>String.prototype.split\<close> with a one-character separator.\<close>

fun join :: "string \<Rightarrow> string list \<Rightarrow> string" where
  "join sep [] = []"
| "join sep [x] = x"
| "join sep (x # y # ys) = x @ sep @ join sep (y # ys)"

fun split :: "char \<Rightarrow> string \<Rightarrow> string list" where
  "split c [] = [[]]"
| "split c (x # xs) =
     (if x = c then [] # split c xs
      else (case split c xs of
              [] \<Rightarrow> [[x]]
            | p # ps \<Rightarrow> (x # p) # ps))"

definition lower_char :: "char \<Rightarrow> char" where
  "lower_char c =
     (case map_of (zip ''ABCDEFGHIJKLMNOPQRSTUVWXYZ'' ''abcdefghijklmnopqrstuvwxyz'') c of
        None \<Rightarrow> c
      | Some l \<Rightarrow> l)"

definition toLowerCase :: "string \<Rightarrow> string" where
  "toLowerCase s = map lower_char s"

subsection \<open>The engine's reading of a list of string pairs\<close>

text \<open>
  \<^verbatim>\<open>findIdentities\<close> and \<^verbatim>\<open>removeIdentities\<close> write the identities into the statement
  text as \<^verbatim>\<open>('p1', 'u1'), ('p2', 'u2')\<close>.  The engine reads that text back: blanks are
  skipped between tokens, a string constant runs from a quote to the next quote that is
  not doubled, and a doubled quote inside it stands for one quote.  \<open>tuple_list\<close>
  recognises a non-empty, comma-separated list of parenthesised pairs of string constants
  and gives the pairs; \<open>read_pairs\<close> below says what the model makes of a text.
\<close>

fun skip_ws :: "string \<Rightarrow> string" where
  "skip_ws [] = []"
| "skip_ws (c # cs) = (if c = CHR '' '' then skip_ws cs else c # cs)"

fun str_body :: "string \<Rightarrow> (string \<times> string) option" where
  "str_body [] = None"
| "str_body [c] = (if c = CHR 0x27 then Some ([], []) else None)"
| "str_body (c # d # ds) =
     (if c = CHR 0x27 then
        (if d = CHR 0x27 then map_option (\<lambda>(s, r). (CHR 0x27 # s, r)) (str_body ds)
         else Some ([], d # ds))
      else map_option (\<lambda>(s, r). (c # s, r)) (str_body (d # ds)))"

definition str_lit :: "string \<Rightarrow> (string \<times> string) option" where
  "str_lit s =
     (case skip_ws s of
        [] \<Rightarrow> None
      | c # cs \<Rightarrow> if c = CHR 0x27 then str_body cs else None)"

definition expect :: "char \<Rightarrow> string \<Rightarrow> string option" where
  "expect c s =
     (case skip_ws s of
        [] \<Rightarrow> None
      | d # ds \<Rightarrow> if d = c then Some ds else None)"

definition tuple_lit :: "string \<Rightarrow> ((string \<times> string) \<times> string) option" where
  "tuple_lit s =
     (case expect CHR ''('' s of
        None \<Rightarrow> None
      | Some s1 \<Rightarrow>
          (case str_lit s1 of
             None \<Rightarrow> None
           | Some (p, s2) \<Rightarrow>
               (case expect CHR '','' s2 of
                  None \<Rightarrow> None
                | Some s3 \<Rightarrow>
                    (case str_lit s3 of
                       None \<Rightarrow> None
                     | Some (u, s4) \<Rightarrow>
                         (case expect CHR '')'' s4 of
                            None \<Rightarrow> None
                          | Some s5 \<Rightarrow> Some ((p, u), s5))))))"

lemma skip_ws_length: "length (skip_ws s) \<le> length s"
  by (induction s) auto

lemma str_body_length: "str_body s = Some (v, r) \<Longrightarrow> length r < length s"
  by (induction s arbitrary: v r rule: str_body.induct)
     (auto split: if_splits prod.splits)

lemma str_lit_length: "str_lit s = Some (v, r) \<Longrightarrow> length r < length s"
proof -
  assume a: "str_lit s = Some (v, r)"
  then obtain cs where c: "skip_ws s = CHR 0x27 # cs" and b: "str_body cs = Some (v, r)"
    by (auto simp: str_lit_def split: list.splits if_splits)
  have "length r < length cs" using b by (rule str_body_length)
  also have "length cs < length (skip_ws s)" using c by simp
  also have "\<dots> \<le> length s" by (rule skip_ws_length)
  finally show ?thesis .
qed

lemma expect_length: "expect c s = Some r \<Longrightarrow> length r < length s"
proof -
  assume a: "expect c s = Some r"
  then have "skip_ws s = c # r"
    by (auto simp: expect_def split: list.splits if_splits)
  then have "length r < length (skip_ws s)" by simp
  also have "\<dots> \<le> length s" by (rule skip_ws_length)
  finally show ?thesis .
qed

lemma tuple_lit_length: "tuple_lit s = Some (t, r) \<Longrightarrow> length r < length s"
proof -
  assume a: "tuple_lit s = Some (t, r)"
  then obtain s1 p s2 s3 u s4 where
    "expect CHR ''('' s = Some s1" "str_lit s1 = Some (p, s2)"
    "expect CHR '','' s2 = Some s3" "str_lit s3 = Some (u, s4)"
    "expect CHR '')'' s4 = Some r"
    by (auto simp: tuple_lit_def split: option.splits prod.splits)
  then have "length s1 < length s" "length s2 < length s1" "length s3 < length s2"
    "length s4 < length s3" "length r < length s4"
    by (auto dest: expect_length str_lit_length)
  then show ?thesis by linarith
qed

function tuple_list :: "string \<Rightarrow> (string \<times> string) list option" where
  "tuple_list s =
     (case tuple_lit s of
        None \<Rightarrow> None
      | Some (t, r) \<Rightarrow>
          (case skip_ws r of
             [] \<Rightarrow> Some [t]
           | c # cs \<Rightarrow>
               if c = CHR '','' then map_option (\<lambda>ts. t # ts) (tuple_list cs) else None))"
  by pat_completeness auto
termination
proof (relation "measure length")
  show "wf (measure length)" by simp
next
  fix s :: string and x2 x y x2a x21 x22
  assume a: "tuple_lit s = Some x2" "(x, y) = x2" "skip_ws y = x21 # x22"
  then have "tuple_lit s = Some (x, y)" by simp
  then have "length y < length s" by (rule tuple_lit_length)
  moreover have "length x22 < length (skip_ws y)" using a by simp
  moreover have "length (skip_ws y) \<le> length y" by (rule skip_ws_length)
  ultimately show "(x22, s) \<in> measure length" by simp
qed

declare tuple_list.simps [simp del]

text \<open>
  What the model makes of the text written after \<^verbatim>\<open>values\<close> or between the
  parentheses after \<^verbatim>\<open>in\<close>.
  \<^item> \<open>Pairs\<close>: the text is a list of pairs of string constants, all its characters are
    printable ASCII, and it holds no dollar sign (pg-promise replaces \<^verbatim>\<open>$(name)\<close> also
    inside the written values) and no backslash.  The engine reads these pairs.
  \<^item> \<open>Blank\<close>: nothing was written; \<^verbatim>\<open>values )\<close> and \<^verbatim>\<open>in ()\<close> are syntax
    errors.
  \<^item> \<open>Unterminated\<close>: the text is no list of pairs, holds an odd number of quotes, and
    besides quotes only letters, digits, blanks, parentheses and commas.  No comment,
    quoted identifier or escape can hide a quote, so a string constant is still open
    where the text ends.
  \<^item> \<open>Unread\<close>: any other text.  It may be a different statement, or several.
\<close>

definition readable_char :: "char \<Rightarrow> bool" where
  "readable_char c =
     (32 \<le> (of_char c :: nat) \<and> (of_char c :: nat) < 127
      \<and> c \<noteq> CHR ''$'' \<and> c \<noteq> CHR 0x5C)"

definition inert_char :: "char \<Rightarrow> bool" where
  "inert_char c =
     (c \<in> set ''abcdefghijklmnopqrstuvwxyzABCDEFGHIJKLMNOPQRSTUVWXYZ0123456789 (),'')"

definition inert :: "string \<Rightarrow> bool" where
  "inert s = list_all inert_char s"

datatype reading = Pairs "(string \<times> string) list" | Blank | Unterminated | Unread

definition read_pairs :: "string \<Rightarrow> reading" where
  "read_pairs s =
     (if skip_ws s = [] then Blank
      else if list_all readable_char s then
        (case tuple_list s of
           Some ps \<Rightarrow> Pairs ps
         | None \<Rightarrow>
             if list_all (\<lambda>c. inert_char c \<or> c = CHR 0x27) s \<and> odd (count_list s (CHR 0x27))
             then Unterminated else Unread)
      else Unread)"

subsection \<open>Lookups\<close>

text \<open>
  Modelled from the spec: \<^verbatim>\<open>getSelectMemberColumnSet\<close> is declared in
  \<^verbatim>\<open>member.data.ts\<close>, which is not among the sources; the select list names the
  attributes of a member in the data model.  In the statement texts below the line
  breaks and indentation of the template strings are written as single blanks.
\<close>

definition selectMemberColumns :: "string list" where
  "selectMemberColumns =
     [''id'', ''tenantId'', ''emails'', ''displayName'', ''reach'', ''score'',
      ''weakIdentities'', ''joinedAt'', ''createdAt'', ''updatedAt'']"

definition selectMemberQuery :: string where
  \<open>selectMemberQuery =
     ''select '' @ join '', '' (map (\<lambda>c. ''m."'' @ c @ ''"'') selectMemberColumns)
       @ '' from "members" m''\<close>

definition findMemberByEmail_query :: "string \<Rightarrow> string \<Rightarrow> query" where
  \<open>findMemberByEmail_query tenantId email =
     \<lparr>q_text = selectMemberQuery
         @ '' where "tenantId" = $(tenantId) and $(email) = ANY ("emails") limit 1'',
      q_params = [(''tenantId'', VText tenantId), (''email'', VText email)]\<rparr>\<close>

definition findMemberByEmail :: "db \<Rightarrow> string \<Rightarrow> string \<Rightarrow> error + IDbMember option" where
  "findMemberByEmail d tenantId email =
     oneOrNone
       (take 1 [m \<leftarrow> members d. m_tenantId m = tenantId \<and> email \<in> set (m_emails m)])"

definition findMember_query :: "string \<Rightarrow> string \<Rightarrow> string \<Rightarrow> string \<Rightarrow> query" where
  \<open>findMember_query tenantId segmentId platform username =
     \<lparr>q_text = selectMemberQuery
         @ '' where m.id in (select mi."memberId" from "memberIdentities" mi''
         @ '' where mi."tenantId" = $(tenantId) and mi.platform = $(platform)''
         @ '' and mi.username = $(username));'',
      q_params = [(''tenantId'', VText tenantId), (''segmentId'', VText segmentId),
                  (''platform'', VText platform), (''username'', VText username)]\<rparr>\<close>

definition findMember ::
  "db \<Rightarrow> string \<Rightarrow> string \<Rightarrow> string \<Rightarrow> string \<Rightarrow> error + IDbMember option" where
  "findMember d tenantId segmentId platform username =
     oneOrNone
       [m \<leftarrow> members d.
          m_id m \<in> set (map mi_memberId
                          [mi \<leftarrow> memberIdentities d.
                             mi_tenantId mi = tenantId \<and> mi_platform mi = platform
                             \<and> mi_username mi = username])]"

definition format_identity :: "IMemberIdentity \<Rightarrow> string" where
  "format_identity i = ''('' @ [CHR 0x27] @ i_platform i @ [CHR 0x27] @ '', ''
                        @ [CHR 0x27] @ i_username i @ [CHR 0x27] @ '')''"

definition findIdentities_query ::
  "string \<Rightarrow> IMemberIdentity list \<Rightarrow> string option \<Rightarrow> query" where
  \<open>findIdentities_query tenantId identities memberId =
     (let params = [(''tenantId'', VText tenantId)];
          truthy = (case memberId of None \<Rightarrow> False | Some m \<Rightarrow> m \<noteq> []);
          condition = (if truthy then ''and "memberId" <> $(memberId)'' else []);
          params = (if truthy then params @ [(''memberId'', VText (the memberId))] else params);
          identityParams = join '', '' (map format_identity identities)
      in \<lparr>q_text = ''with input_identities (platform, username) as ( values '' @ identityParams
              @ '' ) select "memberId", i.platform, i.username from "memberIdentities" mi''
              @ '' inner join input_identities i on mi.platform = i.platform''
              @ '' and mi.username = i.username where mi."tenantId" = $(tenantId) ''
              @ condition,
          q_params = params\<rparr>)\<close>

text \<open>
  The rows the statement of \<^verbatim>\<open>findIdentities\<close> selects, given the text written after
  \<^verbatim>\<open>values\<close>: the join of the identity rows of the tenant with the pairs read from that
  text, without the rows of \<open>exclude\<close> when the condition on \<^verbatim>\<open>"memberId"\<close> is part
  of the statement.  After an unterminated text the constants pg-promise writes for the
  parameters follow; the statement is a syntax error when they hold nothing but letters,
  digits, blanks, parentheses and commas.
\<close>

definition findIdentities_rows ::
  "engine \<Rightarrow> db \<Rightarrow> query \<Rightarrow> string \<Rightarrow> string option \<Rightarrow> string
     \<Rightarrow> error + (string \<times> string \<times> string) list" where
  "findIdentities_rows E d q tenantId exclude identityParams =
     (case read_pairs identityParams of
        Pairs input_identities \<Rightarrow>
          Inr [(mi_memberId mi, p, u).
                 mi \<leftarrow> memberIdentities d, (p, u) \<leftarrow> input_identities,
                 mi_platform mi = p \<and> mi_username mi = u,
                 mi_tenantId mi = tenantId,
                 (case exclude of None \<Rightarrow> True | Some x \<Rightarrow> mi_memberId mi \<noteq> x)]
      | Blank \<Rightarrow> Inl SyntaxError
      | Unterminated \<Rightarrow>
          if inert tenantId \<and> (case exclude of None \<Rightarrow> True | Some x \<Rightarrow> inert x)
          then Inl SyntaxError else select_answer E q d
      | Unread \<Rightarrow> select_answer E q d)"

text \<open>
  The result is a JavaScript \<^verbatim>\<open>Map\<close>: an association list in insertion order, where
  \<^verbatim>\<open>set\<close> on a key already there replaces its value in place.
\<close>

definition findIdentities ::
  "engine \<Rightarrow> db \<Rightarrow> string \<Rightarrow> IMemberIdentity list \<Rightarrow> string option
     \<Rightarrow> error + (string \<times> string) list" where
  "findIdentities E d tenantId identities memberId =
     (let truthy = (case memberId of None \<Rightarrow> False | Some m \<Rightarrow> m \<noteq> []);
          identityParams = join '', '' (map format_identity identities)
      in case findIdentities_rows E d (findIdentities_query tenantId identities memberId)
                tenantId (if truthy then memberId else None) identityParams of
           Inl e \<Rightarrow> Inl e
         | Inr result \<Rightarrow>
             Inr (foldl (\<lambda>resultMap (memberId, platform, username).
                           AList.update (platform @ '':'' @ username) memberId resultMap)
                    [] result))"

definition findById :: "db \<Rightarrow> string \<Rightarrow> error + IDbMember option" where
  "findById d id' = oneOrNone [m \<leftarrow> members d. m_id m = id']"

definition getIdentities_query :: "string \<Rightarrow> string \<Rightarrow> query" where
  \<open>getIdentities_query memberId tenantId =
     \<lparr>q_text = ''select "sourceId", "platform", "username" from "memberIdentities"''
         @ '' where "memberId" = $(memberId) and "tenantId" = $(tenantId)'',
      q_params = [(''memberId'', VText memberId), (''tenantId'', VText tenantId)]\<rparr>\<close>


subsection \<open>Creation and update\<close>



record IDbMemberUpdateData =
  u_emails :: "string list option"
  u_displayName :: "string option"
  u_reach :: "int option"
  u_score :: "int option"
  u_weakIdentities :: "IMemberIdentity list option"
  u_joinedAt :: "int option"

text \<open>The object \<^verbatim>\<open>data\<close>: its keys, in order, with their values.\<close>

fun field :: "string \<Rightarrow> pval option \<Rightarrow> (string \<times> pval) list" where
  "field k None = []"
| "field k (Some v) = [(k, v)]"

definition data_object :: "IDbMemberUpdateData \<Rightarrow> (string \<times> pval) list" where
  "data_object data =
     field ''emails'' (map_option VTextArray (u_emails data))
     @ field ''displayName'' (map_option VText (u_displayName data))
     @ field ''reach'' (map_option VInt (u_reach data))
     @ field ''score'' (map_option VInt (u_score data))
     @ field ''weakIdentities'' (map_option VObjArray (u_weakIdentities data))
     @ field ''joinedAt'' (map_option VInt (u_joinedAt data))"

text \<open>
  Modelled from the spec: \<^verbatim>\<open>RepositoryBase.prepare\<close> belongs to \<^verbatim>\<open>@crowd/database\<close>,
  which is not among the sources; it keeps of the object the fields that are columns of
  the column set.
\<close>

definition prepare :: "(string \<times> pval) list \<Rightarrow> string list \<Rightarrow> (string \<times> pval) list" where
  "prepare obj columns = [(k, v) \<leftarrow> obj. k \<in> set columns]"

text \<open>
  \<^verbatim>\<open>helpers.update\<close> of pg-promise sets every column of the column set to the property
  of that name, and throws when the object has no such property.
\<close>

fun helpers_update :: "(string \<times> pval) list \<Rightarrow> string list \<Rightarrow> error + (string \<times> pval) list" where
  "helpers_update obj [] = Inr []"
| "helpers_update obj (c # cs) =
     (case map_of obj c of
        None \<Rightarrow> Inl (Error (''Property '' @ [CHR 0x27] @ c @ [CHR 0x27] @ '' doesn't exist.''))
      | Some v \<Rightarrow>
          (case helpers_update obj cs of
             Inl e \<Rightarrow> Inl e
           | Inr sets \<Rightarrow> Inr ((c, v) # sets)))"

text \<open>
  What the engine stores for \<^verbatim>\<open>set "c" = v\<close>.  pg-promise writes a string as a quoted
  constant and the empty array as \<^verbatim>\<open>'{}'\<close>; in the \<^verbatim>\<open>jsonb\<close> column
  \<^verbatim>\<open>weakIdentities\<close> the first is read as the JSON text it holds and the second as the
  empty JSON object.  \<open>typed\<close> says which values a column takes; the statement is
  rejected when one of its values is not of its column's type.
\<close>

definition typed :: "string \<Rightarrow> pval \<Rightarrow> bool" where
  "typed c v =
     (if c = ''emails'' then (case v of VTextArray es \<Rightarrow> True | _ \<Rightarrow> False)
      else if c = ''displayName'' then (case v of VText s \<Rightarrow> True | _ \<Rightarrow> False)
      else if c = ''reach'' then (case v of VInt n \<Rightarrow> True | VNull \<Rightarrow> True | _ \<Rightarrow> False)
      else if c = ''score'' then (case v of VInt n \<Rightarrow> True | _ \<Rightarrow> False)
      else if c = ''weakIdentities'' then
        (case v of VJsonText ws \<Rightarrow> True | VObjArray ws \<Rightarrow> ws = [] | _ \<Rightarrow> False)
      else if c = ''joinedAt'' then (case v of VInt n \<Rightarrow> True | _ \<Rightarrow> False)
      else if c = ''updatedAt'' then (case v of VInt n \<Rightarrow> True | _ \<Rightarrow> False)
      else False)"

definition assign :: "IDbMember \<Rightarrow> string \<times> pval \<Rightarrow> IDbMember" where
  "assign m cv =
     (case cv of (c, v) \<Rightarrow>
        if c = ''emails'' then (case v of VTextArray es \<Rightarrow> m\<lparr>m_emails := es\<rparr> | _ \<Rightarrow> m)
        else if c = ''displayName'' then (case v of VText s \<Rightarrow> m\<lparr>m_displayName := s\<rparr> | _ \<Rightarrow> m)
        else if c = ''reach'' then
          (case v of VInt n \<Rightarrow> m\<lparr>m_reach := Some n\<rparr> | VNull \<Rightarrow> m\<lparr>m_reach := None\<rparr> | _ \<Rightarrow> m)
        else if c = ''score'' then (case v of VInt n \<Rightarrow> m\<lparr>m_score := n\<rparr> | _ \<Rightarrow> m)
        else if c = ''weakIdentities'' then
          (case v of
             VJsonText ws \<Rightarrow> m\<lparr>m_weakIdentities := JArray ws\<rparr>
           | VObjArray ws \<Rightarrow> m\<lparr>m_weakIdentities := JEmptyObject\<rparr>
           | _ \<Rightarrow> m)
        else if c = ''joinedAt'' then (case v of VInt n \<Rightarrow> m\<lparr>m_joinedAt := n\<rparr> | _ \<Rightarrow> m)
        else if c = ''updatedAt'' then (case v of VInt n \<Rightarrow> m\<lparr>m_updatedAt := n\<rparr> | _ \<Rightarrow> m)
        else m)"

text \<open>
  The statement of \<^verbatim>\<open>update\<close>: \<^verbatim>\<open>update "members" set ... where id = $(id) and
  "tenantId" = $(tenantId) and "updatedAt" < $(updatedAt)\<close>, with the number of rows it
  changed.
\<close>

definition update_where :: "string \<Rightarrow> string \<Rightarrow> int \<Rightarrow> IDbMember \<Rightarrow> bool" where
  "update_where id' tenantId updatedAt m =
     (m_id m = id' \<and> m_tenantId m = tenantId \<and> m_updatedAt m < updatedAt)"

definition update_result ::
  "db \<Rightarrow> (string \<times> pval) list \<Rightarrow> string \<Rightarrow> string \<Rightarrow> int \<Rightarrow> error + (nat \<times> db)" where
  "update_result d sets id' tenantId updatedAt =
     (if list_all (\<lambda>(c, v). typed c v) sets then
        Inr (length [m \<leftarrow> members d. update_where id' tenantId updatedAt m],
             d\<lparr>members :=
                 map (\<lambda>m. if update_where id' tenantId updatedAt m then foldl assign m sets
                          else m)
                   (members d)\<rparr>)
      else Inl DatatypeMismatch)"

text \<open>
  The object literal handed to \<^verbatim>\<open>prepare\<close>: the fields of \<^verbatim>\<open>data\<close>, then
  \<^verbatim>\<open>weakIdentities\<close> as a JSON string when \<^verbatim>\<open>data.weakIdentities\<close> is there and not
  empty, then \<^verbatim>\<open>updatedAt\<close>.  A later key replaces the value of an earlier one of the
  same name.
\<close>

definition update_object :: "IDbMemberUpdateData \<Rightarrow> int \<Rightarrow> (string \<times> pval) list" where
  "update_object data updatedAt =
     AList.update ''updatedAt'' (VInt updatedAt)
       (case u_weakIdentities data of
          None \<Rightarrow> data_object data
        | Some ws \<Rightarrow>
            if length ws > 0
            then AList.update ''weakIdentities'' (VJsonText ws) (data_object data)
            else data_object data)"

definition update ::
  "db \<Rightarrow> int \<Rightarrow> string \<Rightarrow> string \<Rightarrow> IDbMemberUpdateData \<Rightarrow> (error + unit) \<times> db" where
  "update d now id' tenantId data =
     (let keys = map fst (data_object data) @ [''updatedAt''];
          dynamicColumnSet = keys;
          updatedAt = now;
          prepared = prepare (update_object data updatedAt) dynamicColumnSet
      in case helpers_update prepared dynamicColumnSet of
           Inl e \<Rightarrow> (Inl e, d)
         | Inr sets \<Rightarrow>
             (case update_result d sets id' tenantId updatedAt of
                Inl e \<Rightarrow> (Inl e, d)
              | Inr (rowCount, d') \<Rightarrow> (Inr (), d')))"

subsection \<open>Identities and segments\<close>

definition removeIdentities_query ::
  "string \<Rightarrow> string \<Rightarrow> IMemberIdentity list \<Rightarrow> query" where
  \<open>removeIdentities_query memberId tenantId identities =
     (let formattedIdentities = join '', '' (map format_identity identities)
      in \<lparr>q_text = ''delete from "memberIdentities" where "memberId" = $(memberId) and''
              @ '' "tenantId" = $(tenantId) and ("platform", "username") in (''
              @ formattedIdentities @ '');'',
          q_params = [(''memberId'', VText memberId), (''tenantId'', VText tenantId),
                      (''formattedIdentities'', VText formattedIdentities)]\<rparr>)\<close>

text \<open>
  The statement of \<^verbatim>\<open>removeIdentities\<close>, given the text written between the
  parentheses after \<^verbatim>\<open>in\<close>: the number of rows deleted and the tables afterwards.
  Nothing but \<^verbatim>\<open>);\<close> follows the written text, so an unterminated text is a syntax
  error.
\<close>

definition removeIdentities_where ::
  "string \<Rightarrow> string \<Rightarrow> (string \<times> string) list \<Rightarrow> MemberIdentityRow \<Rightarrow> bool" where
  "removeIdentities_where memberId tenantId tuples mi =
     (mi_memberId mi = memberId \<and> mi_tenantId mi = tenantId
      \<and> (mi_platform mi, mi_username mi) \<in> set tuples)"

definition removeIdentities_result ::
  "engine \<Rightarrow> db \<Rightarrow> query \<Rightarrow> string \<Rightarrow> string \<Rightarrow> string \<Rightarrow> error + (nat \<times> db)" where
  "removeIdentities_result E d q memberId tenantId formattedIdentities =
     (case read_pairs formattedIdentities of
        Pairs tuples \<Rightarrow>
          Inr (length [mi \<leftarrow> memberIdentities d.
                         removeIdentities_where memberId tenantId tuples mi],
               d\<lparr>memberIdentities :=
                   [mi \<leftarrow> memberIdentities d.
                      \<not> removeIdentities_where memberId tenantId tuples mi]\<rparr>)
      | Blank \<Rightarrow> Inl SyntaxError
      | Unterminated \<Rightarrow> Inl SyntaxError
      | Unread \<Rightarrow> delete_answer E q d)"

text \<open>
  Modelled from the spec: \<^verbatim>\<open>checkUpdateRowCount\<close> is a method of \<^verbatim>\<open>RepositoryBase\<close>
  in \<^verbatim>\<open>@crowd/database\<close>, which is not among the sources.  The spec: a mismatch between
  the requested and the actual number of rows must raise an explicit error naming the
  discrepancy (expected against actual count).
\<close>

definition checkUpdateRowCount :: "nat \<Rightarrow> nat \<Rightarrow> error + unit" where
  "checkUpdateRowCount rowCount expected =
     (if rowCount = expected then Inr () else Inl (RowCountMismatch rowCount expected))"

definition removeIdentities ::
  "engine \<Rightarrow> db \<Rightarrow> string \<Rightarrow> string \<Rightarrow> IMemberIdentity list \<Rightarrow> (error + unit) \<times> db" where
  "removeIdentities E d memberId tenantId identities =
     (let formattedIdentities = join '', '' (map format_identity identities)
      in case removeIdentities_result E d (removeIdentities_query memberId tenantId identities)
                memberId tenantId formattedIdentities of
           Inl e \<Rightarrow> (Inl e, d)
         | Inr (rowCount, d') \<Rightarrow> (checkUpdateRowCount rowCount (length identities), d'))"



text \<open>
  Modelled from the spec: the key of \<^verbatim>\<open>memberSegments\<close> is part of the schema, which is
  not among the sources.  The spec: a link table of member, tenant and segment, where a
  duplicate insert is a no-op.  With \<^verbatim>\<open>ON CONFLICT DO NOTHING\<close> the insert of a row that
  is already there changes nothing and reports no error.
\<close>

definition addToSegment ::
  "db \<Rightarrow> string \<Rightarrow> string \<Rightarrow> string \<Rightarrow> (error + unit) \<times> db" where
  "addToSegment d memberId tenantId segmentId =
     (let prepared = \<lparr>ms_memberId = memberId, ms_tenantId = tenantId,
                       ms_segmentId = segmentId\<rparr>
      in if prepared \<in> set (memberSegments d) then (Inr (), d)
         else (Inr (), d\<lparr>memberSegments := memberSegments d @ [prepared]\<rparr>))"

subsection \<open>Paginated listing\<close>

record ListOptions =
  o_limit :: "int option"
  o_offset :: "int option"
  o_orderBy :: "string option"
  o_countOnly :: "bool option"

record ListResult =
  totalCount :: nat
  r_members :: "(string \<times> string list) list"

definition count_query :: "string \<Rightarrow> string list \<Rightarrow> query" where
  \<open>count_query tenantId segmentIds =
     \<lparr>q_text = ''SELECT count(*) FROM ( SELECT m.id FROM "members" m''
         @ '' JOIN "memberSegments" ms ON ms."memberId" = m.id''
         @ '' WHERE m."tenantId" = $(tenantId)''
         @ '' AND ms."segmentId" = ANY($(segmentIds)::uuid[]) ) as count'',
      q_params = [(''tenantId'', VText tenantId), (''segmentIds'', VTextArray segmentIds)]\<rparr>\<close>

definition list_query :: "string \<Rightarrow> string list \<Rightarrow> string \<Rightarrow> int \<Rightarrow> int \<Rightarrow> query" where
  \<open>list_query tenantId segmentIds orderByString limit offset =
     \<lparr>q_text = ''SELECT m.id, m.emails FROM "members" m''
         @ '' JOIN "memberSegments" ms ON ms."memberId" = m.id''
         @ '' WHERE m."tenantId" = $(tenantId)''
         @ '' AND ms."segmentId" = ANY($(segmentIds)::uuid[])''
         @ '' ORDER BY '' @ orderByString @ '' LIMIT $(limit) OFFSET $(offset)'',
      q_params = [(''tenantId'', VText tenantId), (''segmentIds'', VTextArray segmentIds),
                  (''limit'', VInt limit), (''offset'', VInt offset)]\<rparr>\<close>

text \<open>The join both statements select from: one row for each segment link of a member.\<close>

definition segment_members :: "db \<Rightarrow> string \<Rightarrow> string list \<Rightarrow> IDbMember list" where
  "segment_members d tenantId segmentIds =
     [m. m \<leftarrow> members d, ms \<leftarrow> memberSegments d,
         ms_memberId ms = m_id m,
         m_tenantId m = tenantId \<and> ms_segmentId ms \<in> set segmentIds]"

text \<open>
  The model's reading of \<^verbatim>\<open>ORDER BY\<close>: the four expressions the method writes, in
  ascending order unless the direction is \<^verbatim>\<open>desc\<close>; nulls sort as larger than any
  value.  Rows that compare equal keep the engine's order and strings compare by
  character code.  The lower-cased direction is written into the text as it is: the
  model reads \<^verbatim>\<open>asc\<close>, \<^verbatim>\<open>desc\<close> and the empty direction (\<open>None\<close>: any other
  text, which may change or extend the statement).  \<^verbatim>\<open>LIMIT\<close> and \<^verbatim>\<open>OFFSET\<close> must
  not be negative nor above the largest \<^verbatim>\<open>bigint\<close>.
\<close>

definition order_by :: "string \<Rightarrow> string \<Rightarrow> IDbMember list \<Rightarrow> IDbMember list option" where
  \<open>order_by expr direction rows =
     (let ascending =
            (if expr = ''m."joinedAt"'' then Some (sort_key m_joinedAt rows)
             else if expr = ''m."displayName"'' then Some (sort_key m_displayName rows)
             else if expr = ''(m.reach ->> 'total')::int'' then
               Some (sort_key (\<lambda>m. (m_reach m = None,
                                      case m_reach m of None \<Rightarrow> 0 | Some n \<Rightarrow> n)) rows)
             else if expr = ''m.score'' then Some (sort_key m_score rows)
             else None)
      in case ascending of
           None \<Rightarrow> None
         | Some rows' \<Rightarrow>
             if direction = ''desc'' then Some (rev rows')
             else if direction = ''asc'' \<or> direction = [] then Some rows'
             else None)\<close>

definition list_rows ::
  "engine \<Rightarrow> db \<Rightarrow> query \<Rightarrow> string \<Rightarrow> string list \<Rightarrow> string \<Rightarrow> string \<Rightarrow> int \<Rightarrow> int
     \<Rightarrow> error + (string \<times> string list) list" where
  "list_rows E d q tenantId segmentIds expr direction limit offset =
     (case order_by expr direction (segment_members d tenantId segmentIds) of
        None \<Rightarrow> list_answer E q d
      | Some rows \<Rightarrow>
          if limit < 0 \<or> offset < 0
             \<or> 9223372036854775807 < limit \<or> 9223372036854775807 < offset
          then Inl InvalidRowCount
          else Inr (map (\<lambda>m. (m_id m, m_emails m))
                      (take (nat limit) (drop (nat offset) rows))))"

text \<open>
  The method returns the statements it sent, in order, beside its result.  The
  \<^verbatim>\<open>switch\<close> on the first part of \<^verbatim>\<open>orderBy\<close> is \<open>order_column\<close>.
\<close>

definition order_column :: "string \<Rightarrow> string option" where
  \<open>order_column f =
     (if f = ''joinedAt'' then Some ''m."joinedAt"''
      else if f = ''displayName'' then Some ''m."displayName"''
      else if f = ''reach'' then Some ''(m.reach ->> 'total')::int''
      else if f = ''score'' then Some ''m.score''
      else None)\<close>

definition getMemberIdsAndEmailsAndCount ::
  "engine \<Rightarrow> db \<Rightarrow> string \<Rightarrow> string list \<Rightarrow> ListOptions
     \<Rightarrow> query list \<times> (error + ListResult)" where
  "getMemberIdsAndEmailsAndCount E d tenantId segmentIds opts =
     (let limit = (case o_limit opts of None \<Rightarrow> 20 | Some l \<Rightarrow> l);
          offset = (case o_offset opts of None \<Rightarrow> 0 | Some k \<Rightarrow> k);
          orderBy = (case o_orderBy opts of None \<Rightarrow> ''joinedAt_DESC'' | Some s \<Rightarrow> s);
          countOnly = (case o_countOnly opts of None \<Rightarrow> False | Some b \<Rightarrow> b);
          orderByParts = split CHR ''_'' orderBy
      in case orderByParts of
           f # p # rest \<Rightarrow>
             (let direction = toLowerCase p
              in case order_column f of
                   None \<Rightarrow> ([], Inl (Error (''Invalid order by: '' @ orderBy @ ''!'')))
                 | Some expr \<Rightarrow>
                     (let orderByString = expr @ '' '' @ direction;
                          q1 = count_query tenantId segmentIds
                      in case one [length (segment_members d tenantId segmentIds)] of
                           Inl e \<Rightarrow> ([q1], Inl e)
                         | Inr memberCount \<Rightarrow>
                             if countOnly then
                               ([q1], Inr \<lparr>totalCount = memberCount, r_members = []\<rparr>)
                             else
                               (let q2 = list_query tenantId segmentIds orderByString
                                           limit offset
                                in case list_rows E d q2 tenantId segmentIds expr direction
                                          limit offset of
                                     Inl e \<Rightarrow> ([q1, q2], Inl e)
                                   | Inr members' \<Rightarrow>
                                       ([q1, q2],
                                        Inr \<lparr>totalCount = memberCount,
                                             r_members = members'\<rparr>))))
         | _ \<Rightarrow>
             ([], Inl (TypeError
                ''Cannot read properties of undefined (reading 'toLowerCase')'')))"

subsection \<open>Predicates of the statements and example tables\<close>

text \<open>
  \<open>owns d tenantId platform username memberId\<close>: the member has an identity row for
  the pair under the tenant.  \<open>findMember_matches\<close>: the member rows owning the pair.
\<close>

definition owns :: "db \<Rightarrow> string \<Rightarrow> string \<Rightarrow> string \<Rightarrow> string \<Rightarrow> bool" where
  "owns d tenantId platform username memberId =
     list_ex (\<lambda>mi. mi_memberId mi = memberId \<and> mi_tenantId mi = tenantId
                   \<and> mi_platform mi = platform \<and> mi_username mi = username)
       (memberIdentities d)"

definition findMember_matches :: "db \<Rightarrow> string \<Rightarrow> string \<Rightarrow> string \<Rightarrow> IDbMember list" where
  "findMember_matches d tenantId platform username =
     [m \<leftarrow> members d. owns d tenantId platform username (m_id m)]"

text \<open>
  The assignments the statement of \<^verbatim>\<open>update\<close> makes, written out: the fields of
  \<^verbatim>\<open>data\<close> that are there, in order, and \<^verbatim>\<open>updatedAt\<close> last (lemma
  \<open>update_object_eq\<close> below).
\<close>

definition update_sets :: "IDbMemberUpdateData \<Rightarrow> int \<Rightarrow> (string \<times> pval) list" where
  "update_sets data updatedAt =
     field ''emails'' (map_option VTextArray (u_emails data))
     @ field ''displayName'' (map_option VText (u_displayName data))
     @ field ''reach'' (map_option VInt (u_reach data))
     @ field ''score'' (map_option VInt (u_score data))
     @ field ''weakIdentities''
         (map_option (\<lambda>ws. if ws = [] then VObjArray ws else VJsonText ws)
            (u_weakIdentities data))
     @ field ''joinedAt'' (map_option VInt (u_joinedAt data))
     @ [(''updatedAt'', VInt updatedAt)]"

text \<open>
  A value is \<open>plain\<close> when its characters are printable ASCII other than the single
  quote, the dollar sign and the backslash: written between quotes into a statement text
  it is one string constant there, and pg-promise finds no placeholder in it.  The
  direction of an \<^verbatim>\<open>orderBy\<close> is plain when the model reads it, or when there is none.
\<close>

definition plain :: "string \<Rightarrow> bool" where
  "plain s = list_all (\<lambda>c. readable_char c \<and> c \<noteq> CHR 0x27) s"


text \<open>An engine for the examples: it answers every text the model does not read with an error.\<close>

definition refusing :: engine where
  "refusing =
     \<lparr>select_answer = (\<lambda>q d. Inl SyntaxError),
      delete_answer = (\<lambda>q d. Inl SyntaxError),
      list_answer = (\<lambda>q d. Inl SyntaxError)\<rparr>"

definition plain_identity :: "IMemberIdentity \<Rightarrow> bool" where
  "plain_identity i = (plain (i_platform i) \<and> plain (i_username i))"


text \<open>
  For the statement about \<^verbatim>\<open>findIdentities\<close>: the pair of an identity, the members
  that own a pair under a tenant (without the excluded member), and the member the
  method excludes (none when the argument is missing or the empty string).
\<close>

definition pair_of :: "IMemberIdentity \<Rightarrow> string \<times> string" where
  "pair_of i = (i_platform i, i_username i)"



definition identity :: "string \<Rightarrow> string \<Rightarrow> IMemberIdentity" where
  "identity p u = \<lparr>i_sourceId = None, i_platform = p, i_username = u\<rparr>"

definition identity_row :: "string \<Rightarrow> string \<Rightarrow> string \<Rightarrow> string \<Rightarrow> MemberIdentityRow" where
  "identity_row memberId tenantId p u =
     \<lparr>mi_memberId = memberId, mi_tenantId = tenantId, mi_integrationId = ''int-1'',
      mi_platform = p, mi_sourceId = None, mi_username = u\<rparr>"

definition segment_row :: "string \<Rightarrow> string \<Rightarrow> string \<Rightarrow> MemberSegmentRow" where
  "segment_row memberId tenantId segmentId =
     \<lparr>ms_memberId = memberId, ms_tenantId = tenantId, ms_segmentId = segmentId\<rparr>"

definition ann :: IDbMember where
  "ann = \<lparr>m_id = ''m-ann'', m_tenantId = ''T1'', m_emails = [''ann@x.io''],
          m_displayName = ''Ann'', m_reach = Some 5, m_score = 3,
          m_weakIdentities = JArray [identity ''slack'' ''ann''],
          m_joinedAt = 10, m_createdAt = 10, m_updatedAt = 100\<rparr>"

definition bob :: IDbMember where
  "bob = \<lparr>m_id = ''m-bob'', m_tenantId = ''T1'', m_emails = [''bob@x.io''],
          m_displayName = ''Bob'', m_reach = None, m_score = 7,
          m_weakIdentities = JArray [],
          m_joinedAt = 5, m_createdAt = 5, m_updatedAt = 50\<rparr>"

definition example_db :: db where
  "example_db =
     \<lparr>members = [ann, bob],
      memberIdentities = [identity_row ''m-ann'' ''T1'' ''github'' ''ann'',
                          identity_row ''m-bob'' ''T1'' ''github'' ''bob''],
      memberSegments = [segment_row ''m-ann'' ''T1'' ''s1'',
                        segment_row ''m-bob'' ''T1'' ''s1'']\<rparr>"

text \<open>Tables in which two members own the same pair under one tenant.\<close>

definition shared_db :: db where
  "shared_db =
     example_db\<lparr>memberIdentities :=
                  [identity_row ''m-ann'' ''T1'' ''github'' ''dev'',
                   identity_row ''m-bob'' ''T1'' ''github'' ''dev'']\<rparr>"

definition no_options :: ListOptions where
  "no_options = \<lparr>o_limit = None, o_offset = None, o_orderBy = None, o_countOnly = None\<rparr>"

definition rename_ann :: IDbMemberUpdateData where
  "rename_ann = \<lparr>u_emails = None, u_displayName = Some ''Anna'', u_reach = None,
                 u_score = None, u_weakIdentities = None, u_joinedAt = None\<rparr>"

definition clear_weak :: IDbMemberUpdateData where
  "clear_weak = \<lparr>u_emails = None, u_displayName = None, u_reach = None,
                 u_score = None, u_weakIdentities = Some [], u_joinedAt = None\<rparr>"





definition obrien_db :: db where
  "obrien_db =
     example_db\<lparr>memberIdentities := [identity_row ''m-ann'' ''T1'' ''github'' ''O'Brien'']\<rparr>"

section \<open>Properties\<close>

subsection \<open>The reader on what the methods write\<close>

lemma str_body_step:
  "c \<noteq> CHR 0x27 \<Longrightarrow> t \<noteq> [] \<Longrightarrow>
   str_body (c # t) = map_option (\<lambda>(s, r). (c # s, r)) (str_body t)"
  by (cases t) auto

lemma str_body_plain:
  "CHR 0x27 \<notin> set s \<Longrightarrow> (r = [] \<or> hd r \<noteq> CHR 0x27) \<Longrightarrow>
   str_body (s @ CHR 0x27 # r) = Some (s, r)"
proof (induction s)
  case Nil
  then show ?case by (cases r) auto
next
  case (Cons c s)
  then have "str_body (s @ CHR 0x27 # r) = Some (s, r)" by simp
  moreover have "c \<noteq> CHR 0x27" using Cons.prems by auto
  ultimately show ?case by (simp add: str_body_step)
qed

lemma str_lit_plain:
  "CHR 0x27 \<notin> set s \<Longrightarrow> (r = [] \<or> hd r \<noteq> CHR 0x27) \<Longrightarrow>
   str_lit (CHR 0x27 # s @ CHR 0x27 # r) = Some (s, r)
   \<and> str_lit (CHR '' '' # CHR 0x27 # s @ CHR 0x27 # r) = Some (s, r)"
  by (simp add: str_lit_def str_body_plain)

lemma tuple_lit_format:
  assumes "CHR 0x27 \<notin> set (i_platform i)" "CHR 0x27 \<notin> set (i_username i)"
  shows "tuple_lit (format_identity i @ r) = Some ((i_platform i, i_username i), r)"
proof -
  let ?q = "CHR 0x27"
  have f: "format_identity i @ r
      = CHR ''('' # ?q # i_platform i @ ?q # CHR '','' # CHR '' '' # ?q # i_username i
          @ ?q # CHR '')'' # r"
    by (simp add: format_identity_def)
  have 1: "expect CHR ''('' (format_identity i @ r)
      = Some (?q # i_platform i @ ?q # CHR '','' # CHR '' '' # ?q # i_username i
                @ ?q # CHR '')'' # r)"
    by (simp add: f expect_def)
  have 2: "str_lit (?q # i_platform i @ ?q # CHR '','' # CHR '' '' # ?q # i_username i
                @ ?q # CHR '')'' # r)
      = Some (i_platform i, CHR '','' # CHR '' '' # ?q # i_username i @ ?q # CHR '')'' # r)"
    using assms(1) by (simp add: str_lit_plain)
  have 3: "expect CHR '','' (CHR '','' # CHR '' '' # ?q # i_username i @ ?q # CHR '')'' # r)
      = Some (CHR '' '' # ?q # i_username i @ ?q # CHR '')'' # r)"
    by (simp add: expect_def)
  have 4: "str_lit (CHR '' '' # ?q # i_username i @ ?q # CHR '')'' # r)
      = Some (i_username i, CHR '')'' # r)"
    using assms(2) by (simp add: str_lit_plain)
  have 5: "expect CHR '')'' (CHR '')'' # r) = Some r"
    by (simp add: expect_def)
  show ?thesis by (simp only: tuple_lit_def 1 2 3 4 5 option.case prod.case)
qed

lemma tuple_lit_blank: "tuple_lit (CHR '' '' # s) = tuple_lit s"
  by (simp add: tuple_lit_def expect_def)

lemma tuple_list_blank: "tuple_list (CHR '' '' # s) = tuple_list s"
  by (subst (1 2) tuple_list.simps) (simp add: tuple_lit_blank)

lemma plain_no_quote: "plain s \<Longrightarrow> CHR 0x27 \<notin> set s"
  by (auto simp: plain_def list_all_iff)

lemma plain_readable: "plain s \<Longrightarrow> list_all readable_char s"
  by (auto simp: plain_def list_all_iff)

lemma tuple_list_format:
  assumes "identities \<noteq> []" "list_all plain_identity identities"
  shows "tuple_list (join '', '' (map format_identity identities))
           = Some (map pair_of identities)"
  using assms
proof (induction identities rule: list_nonempty_induct)
  case (single i)
  then have q: "CHR 0x27 \<notin> set (i_platform i)" "CHR 0x27 \<notin> set (i_username i)"
    by (simp_all add: plain_identity_def plain_no_quote)
  from tuple_lit_format [OF q, of "[]"] show ?case
    by (subst tuple_list.simps) (simp add: pair_of_def)
next
  case (cons i identities)
  then have q: "CHR 0x27 \<notin> set (i_platform i)" "CHR 0x27 \<notin> set (i_username i)"
    by (simp_all add: plain_identity_def plain_no_quote)
  from cons have ih: "tuple_list (join '', '' (map format_identity identities))
           = Some (map pair_of identities)"
    by simp
  from cons(1) obtain j js where js: "identities = j # js" by (cases identities) auto
  have "join '', '' (map format_identity (i # identities))
      = format_identity i @ CHR '','' # CHR '' '' # join '', '' (map format_identity identities)"
    by (simp add: js)
  then show ?case
    using tuple_lit_format [OF q, of "CHR '','' # CHR '' '' # join '', '' (map format_identity identities)"]
    by (subst tuple_list.simps) (simp add: tuple_list_blank ih pair_of_def)
qed

lemma readable_punctuation:
  "readable_char CHR ''('' \<and> readable_char CHR '')'' \<and> readable_char CHR '',''
   \<and> readable_char CHR '' '' \<and> readable_char CHR 0x27"
  by code_simp

lemma readable_format:
  "plain_identity i \<Longrightarrow> list_all readable_char (format_identity i)"
  using readable_punctuation
  by (simp add: format_identity_def plain_identity_def plain_readable)

lemma readable_join:
  "list_all (list_all readable_char) xs \<Longrightarrow> list_all readable_char (join '', '' xs)"
  using readable_punctuation by (induction "'', ''" xs rule: join.induct) simp_all

lemma join_format_starts:
  "identities \<noteq> [] \<Longrightarrow>
   \<exists>r. join '', '' (map format_identity identities) = CHR ''('' # r"
proof (cases identities)
  case Nil
  then show "identities \<noteq> [] \<Longrightarrow> ?thesis" by simp
next
  case (Cons i rest)
  then show ?thesis by (cases rest) (simp_all add: format_identity_def)
qed

lemma read_pairs_format:
  assumes "identities \<noteq> []" "list_all plain_identity identities"
  shows "read_pairs (join '', '' (map format_identity identities))
           = Pairs (map pair_of identities)"
proof -
  from join_format_starts [OF assms(1)]
  have "skip_ws (join '', '' (map format_identity identities)) \<noteq> []" by auto
  moreover have "list_all readable_char (join '', '' (map format_identity identities))"
  proof (rule readable_join)
    show "list_all (list_all readable_char) (map format_identity identities)"
      using assms(2) by (induction identities) (simp_all add: readable_format)
  qed
  ultimately show ?thesis
    by (simp add: read_pairs_def tuple_list_format [OF assms])
qed


subsection \<open>Query methods\<close>

lemma oneOrNone_multiple:
  "2 \<le> length rows \<Longrightarrow> oneOrNone rows = Inl QueryResultError_multiple"
  by (cases rows; cases "tl rows") (auto simp: oneOrNone_def)

lemma oneOrNone_Some: "oneOrNone rows = Inr (Some r) \<longleftrightarrow> rows = [r]"
  by (auto simp: oneOrNone_def split: list.splits)

lemma oneOrNone_None: "oneOrNone rows = Inr None \<longleftrightarrow> rows = []"
  by (auto simp: oneOrNone_def split: list.splits)

lemma oneOrNone_take1:
  "oneOrNone (take (Suc 0) rows) = (case rows of [] \<Rightarrow> Inr None | r # _ \<Rightarrow> Inr (Some r))"
  by (cases rows) (auto simp: oneOrNone_def)

lemma filter_two:
  assumes "x \<in> set xs" "y \<in> set xs" "x \<noteq> y" "P x" "P y"
  shows "2 \<le> length (filter P xs)"
proof -
  have "{x, y} \<subseteq> set (filter P xs)" using assms by simp
  then have "card {x, y} \<le> card (set (filter P xs))" by (intro card_mono) auto
  also have "\<dots> \<le> length (filter P xs)" by (rule card_length)
  finally show ?thesis using assms(3) by simp
qed

lemma distinct_count_list: "distinct xs \<Longrightarrow> x \<in> set xs \<Longrightarrow> count_list xs x = 1"
  by (induction xs) auto

subsection \<open>addToSegment\<close>

lemma addToSegment_distinct:
  "distinct (memberSegments d) \<Longrightarrow>
   distinct (memberSegments (snd (addToSegment d memberId tenantId segmentId)))"
  by (simp add: addToSegment_def Let_def)

text \<open>
  Claim C9.  \<^verbatim>\<open>addToSegment\<close> is idempotent: on a table that satisfies its key, a second
  call with the same member, tenant and segment succeeds and changes nothing, and after
  it the table holds exactly one row for the triple.
\<close>

theorem addToSegment_idempotent:
  assumes "distinct (memberSegments d)"
  shows "addToSegment (snd (addToSegment d memberId tenantId segmentId))
             memberId tenantId segmentId
           = (Inr (), snd (addToSegment d memberId tenantId segmentId))
         \<and> fst (addToSegment d memberId tenantId segmentId) = Inr ()
         \<and> count_list (memberSegments (snd (addToSegment d memberId tenantId segmentId)))
              \<lparr>ms_memberId = memberId, ms_tenantId = tenantId, ms_segmentId = segmentId\<rparr>
             = 1"
  using assms
  by (auto simp: addToSegment_def Let_def distinct_count_list)

theorem addToSegment_idempotent_witness:
  "distinct (memberSegments example_db)
   \<and> addToSegment (snd (addToSegment example_db ''m-ann'' ''T1'' ''s2'')) ''m-ann'' ''T1'' ''s2''
       = (Inr (), snd (addToSegment example_db ''m-ann'' ''T1'' ''s2''))
   \<and> count_list (memberSegments (snd (addToSegment example_db ''m-ann'' ''T1'' ''s2'')))
        \<lparr>ms_memberId = ''m-ann'', ms_tenantId = ''T1'', ms_segmentId = ''s2''\<rparr> = 1"
proof -
  have h: "distinct (memberSegments example_db)"
    by (simp add: example_db_def segment_row_def)
  from addToSegment_idempotent [OF h, of "''m-ann''" "''T1''" "''s2''"] h
  show ?thesis by simp
qed

subsection \<open>findMember and findMemberByEmail\<close>

lemma owns_iff:
  "owns d tenantId platform username x
     \<longleftrightarrow> x \<in> set (map mi_memberId
                        [mi \<leftarrow> memberIdentities d.
                           mi_tenantId mi = tenantId \<and> mi_platform mi = platform
                           \<and> mi_username mi = username])"
  by (force simp: owns_def list_ex_iff)

lemma findMember_alt:
  "findMember d tenantId segmentId platform username
     = oneOrNone (findMember_matches d tenantId platform username)"
  by (simp only: findMember_def findMember_matches_def owns_iff)

text \<open>
  Claim C10.  \<^verbatim>\<open>findMember\<close> is a zero-or-one fetch without a row limit: when two
  member rows with different ids own an identity row for the pair under the tenant, the
  call fails with the multiple-rows error; it returns a member exactly when that member
  is the only match.  \<^verbatim>\<open>findMemberByEmail\<close> limits its result to one row: it never
  fails and returns the first match when there is one.
\<close>

theorem findMember_zero_or_one:
  "(m1 \<in> set (members d) \<and> m2 \<in> set (members d) \<and> m_id m1 \<noteq> m_id m2
      \<and> owns d tenantId platform username (m_id m1)
      \<and> owns d tenantId platform username (m_id m2)
     \<longrightarrow> findMember d tenantId segmentId platform username = Inl QueryResultError_multiple)
   \<and> (findMember d tenantId segmentId platform username = Inr (Some m)
        \<longleftrightarrow> findMember_matches d tenantId platform username = [m])
   \<and> findMemberByEmail d tenantId email
        = (case [m \<leftarrow> members d. m_tenantId m = tenantId \<and> email \<in> set (m_emails m)] of
             [] \<Rightarrow> Inr None
           | m # others \<Rightarrow> Inr (Some m))"
proof (intro conjI impI)
  assume a: "m1 \<in> set (members d) \<and> m2 \<in> set (members d) \<and> m_id m1 \<noteq> m_id m2
      \<and> owns d tenantId platform username (m_id m1)
      \<and> owns d tenantId platform username (m_id m2)"
  then have "m1 \<noteq> m2" by auto
  with a have "2 \<le> length (findMember_matches d tenantId platform username)"
    unfolding findMember_matches_def by (intro filter_two[of m1 _ m2]) auto
  then show "findMember d tenantId segmentId platform username = Inl QueryResultError_multiple"
    by (simp add: findMember_alt oneOrNone_multiple)
next
  show "findMember d tenantId segmentId platform username = Inr (Some m)
        \<longleftrightarrow> findMember_matches d tenantId platform username = [m]"
    by (simp add: findMember_alt oneOrNone_Some)
next
  show "findMemberByEmail d tenantId email
        = (case [m \<leftarrow> members d. m_tenantId m = tenantId \<and> email \<in> set (m_emails m)] of
             [] \<Rightarrow> Inr None
           | m # others \<Rightarrow> Inr (Some m))"
    by (simp add: findMemberByEmail_def oneOrNone_take1)
qed

theorem findMember_zero_or_one_witness:
  "ann \<in> set (members shared_db) \<and> bob \<in> set (members shared_db) \<and> m_id ann \<noteq> m_id bob
   \<and> owns shared_db ''T1'' ''github'' ''dev'' (m_id ann)
   \<and> owns shared_db ''T1'' ''github'' ''dev'' (m_id bob)
   \<and> findMember shared_db ''T1'' ''s1'' ''github'' ''dev'' = Inl QueryResultError_multiple"
proof -
  have h: "ann \<in> set (members shared_db) \<and> bob \<in> set (members shared_db)
      \<and> m_id ann \<noteq> m_id bob
      \<and> owns shared_db ''T1'' ''github'' ''dev'' (m_id ann)
      \<and> owns shared_db ''T1'' ''github'' ''dev'' (m_id bob)"
    by (simp add: shared_db_def example_db_def owns_def identity_row_def ann_def bob_def)
  from findMember_zero_or_one [of ann shared_db bob "''T1''" "''github''" "''dev''" "''s1''"] h
  show ?thesis by blast
qed

subsection \<open>update\<close>

lemma map_fst_field: "map fst (field k v) = (case v of None \<Rightarrow> [] | Some x \<Rightarrow> [k])"
  by (cases v) auto

lemma update_sets_keys:
  "map fst (update_sets data now) = map fst (data_object data) @ [''updatedAt'']"
  by (simp add: update_sets_def data_object_def map_fst_field split: option.split)

lemma update_sets_distinct: "distinct (map fst (update_sets data now))"
  by (simp add: update_sets_def map_fst_field split: option.split)

lemma update_object_eq: "update_object data now = update_sets data now"
  by (cases "u_emails data"; cases "u_displayName data"; cases "u_reach data";
      cases "u_score data"; cases "u_weakIdentities data"; cases "u_joinedAt data")
     (simp_all add: update_object_def data_object_def update_sets_def)

lemma helpers_update_keys:
  "set cs \<subseteq> fst ` set obj \<Longrightarrow>
   helpers_update obj cs = Inr (map (\<lambda>c. (c, the (map_of obj c))) cs)"
proof (induction cs)
  case Nil
  then show ?case by simp
next
  case (Cons c cs)
  then have "c \<in> fst ` set obj" by simp
  then have "map_of obj c \<noteq> None" by (simp add: map_of_eq_None_iff)
  then obtain v where "map_of obj c = Some v" by blast
  with Cons show ?case by simp
qed

lemma map_of_self:
  "distinct (map fst obj) \<Longrightarrow> map (\<lambda>c. (c, the (map_of obj c))) (map fst obj) = obj"
proof (induction obj)
  case Nil
  then show ?case by simp
next
  case (Cons kv obj)
  obtain k v where kv: "kv = (k, v)" by (cases kv)
  from Cons kv have "k \<notin> fst ` set obj" by auto
  then have "map (\<lambda>c. (c, the (map_of (kv # obj) c))) (map fst obj)
        = map (\<lambda>c. (c, the (map_of obj c))) (map fst obj)"
    using kv by (intro map_cong) auto
  with Cons kv show ?case by simp
qed

lemma helpers_update_self:
  assumes "distinct (map fst obj)"
  shows "helpers_update obj (map fst obj) = Inr obj"
proof -
  have "helpers_update obj (map fst obj)
          = Inr (map (\<lambda>c. (c, the (map_of obj c))) (map fst obj))"
    by (rule helpers_update_keys) simp
  also have "map (\<lambda>c. (c, the (map_of obj c))) (map fst obj) = obj"
    using assms by (rule map_of_self)
  finally show ?thesis .
qed

lemma prepare_all: "fst ` set obj \<subseteq> set columns \<Longrightarrow> prepare obj columns = obj"
  by (auto simp: prepare_def filter_id_conv)

lemma update_unfold:
  "update d now id' tenantId data =
     (case update_result d (update_sets data now) id' tenantId now of
        Inl e \<Rightarrow> (Inl e, d)
      | Inr (rowCount, d') \<Rightarrow> (Inr (), d'))"
proof -
  let ?obj = "update_sets data now"
  let ?keys = "map fst (data_object data) @ [''updatedAt'']"
  have k: "map fst ?obj = ?keys" by (rule update_sets_keys)
  have "fst ` set ?obj \<subseteq> set ?keys" unfolding k [symmetric] by simp
  then have p: "prepare ?obj ?keys = ?obj" by (rule prepare_all)
  have "helpers_update ?obj (map fst ?obj) = Inr ?obj"
    using update_sets_distinct by (rule helpers_update_self)
  then have "helpers_update (prepare ?obj ?keys) ?keys = Inr ?obj"
    by (simp only: p k)
  then show ?thesis by (simp add: update_def Let_def update_object_eq)
qed

lemma in_field: "(c, v) \<in> set (field k x) \<longleftrightarrow> c = k \<and> x = Some v"
  by (cases x) auto

lemma list_all_field: "list_all P (field k x) \<longleftrightarrow> (\<forall>v. x = Some v \<longrightarrow> P (k, v))"
  by (cases x) auto

lemma update_sets_typed: "list_all (\<lambda>(c, v). typed c v) (update_sets data now)"
  by (auto simp: update_sets_def list_all_field typed_def)

lemma update_result_ok:
  "update_result d (update_sets data now) id' tenantId now =
     Inr (length [m \<leftarrow> members d. update_where id' tenantId now m],
          d\<lparr>members :=
              map (\<lambda>m. if update_where id' tenantId now m
                       then foldl assign m (update_sets data now) else m)
                (members d)\<rparr>)"
  by (simp add: update_result_def update_sets_typed)

lemma update_eq:
  "update d now id' tenantId data =
     (Inr (),
      d\<lparr>members :=
          map (\<lambda>m. if update_where id' tenantId now m
                   then foldl assign m (update_sets data now) else m)
            (members d)\<rparr>)"
  by (simp add: update_unfold update_result_ok)

lemma assign_keeps_id:
  "m_id (assign m cv) = m_id m \<and> m_tenantId (assign m cv) = m_tenantId m
   \<and> m_createdAt (assign m cv) = m_createdAt m"
  by (cases cv) (simp add: assign_def split: pval.split)

lemma foldl_assign_keeps_id:
  "m_id (foldl assign m sets) = m_id m \<and> m_tenantId (foldl assign m sets) = m_tenantId m
   \<and> m_createdAt (foldl assign m sets) = m_createdAt m"
  by (induction sets arbitrary: m) (simp_all add: assign_keeps_id)

lemma assign_other_weak:
  "c \<noteq> ''weakIdentities'' \<Longrightarrow> m_weakIdentities (assign m (c, v)) = m_weakIdentities m"
  by (simp add: assign_def split: pval.split)

lemma foldl_assign_weak_untouched:
  "''weakIdentities'' \<notin> fst ` set sets \<Longrightarrow>
   m_weakIdentities (foldl assign m sets) = m_weakIdentities m"
proof (induction sets arbitrary: m)
  case Nil
  then show ?case by simp
next
  case (Cons cv sets)
  obtain c v where cv: "cv = (c, v)" by (cases cv)
  with Cons.prems have "c \<noteq> ''weakIdentities''" by auto
  then have "m_weakIdentities (assign m cv) = m_weakIdentities m"
    unfolding cv by (rule assign_other_weak)
  moreover have "m_weakIdentities (foldl assign (assign m cv) sets)
      = m_weakIdentities (assign m cv)"
    using Cons.prems by (intro Cons.IH) simp
  ultimately show ?case by simp
qed

lemma foldl_assign_weak:
  "distinct (map fst sets) \<Longrightarrow> (''weakIdentities'', v) \<in> set sets \<Longrightarrow>
   m_weakIdentities (foldl assign m sets)
     = m_weakIdentities (assign m (''weakIdentities'', v))"
proof (induction sets arbitrary: m)
  case Nil
  then show ?case by simp
next
  case (Cons cv sets)
  obtain c v' where cv: "cv = (c, v')" by (cases cv)
  show ?case
  proof (cases "c = ''weakIdentities''")
    case True
    with Cons.prems cv have "v' = v" and "''weakIdentities'' \<notin> fst ` set sets"
      by (auto simp: image_iff)
    then show ?thesis using cv True by (simp add: foldl_assign_weak_untouched)
  next
    case False
    with Cons.prems cv have mem: "(''weakIdentities'', v) \<in> set sets" by auto
    have dist: "distinct (map fst sets)" using Cons.prems by simp
    have "m_weakIdentities (foldl assign (assign m cv) sets)
        = m_weakIdentities (assign (assign m cv) (''weakIdentities'', v))"
      using dist mem by (rule Cons.IH)
    also have "\<dots> = m_weakIdentities (assign m (''weakIdentities'', v))"
      using assign_other_weak [OF False, of m v']
      by (simp add: cv assign_def [of _ "(''weakIdentities'', v)"] split: pval.split)
    finally show ?thesis by simp
  qed
qed

lemma foldl_assign_updatedAt:
  "m_updatedAt (foldl assign m (update_sets data now)) = now"
  by (simp add: update_sets_def assign_def)

text \<open>
  Claim C1.  The write of \<^verbatim>\<open>update\<close> is conditioned on the row matching the id and
  the tenant and on its stored \<^verbatim>\<open>updatedAt\<close> being strictly less than the new stamp:
  a row is rewritten (and takes the new stamp) exactly when all three hold, and every
  other row stays as it is.  When no row of that id and tenant has an older stamp, the
  statement changes zero rows and the tables are unchanged.
\<close>

theorem update_optimistic_guard:
  "update d now id' tenantId data = (res, d') \<Longrightarrow>
     res = Inr ()
     \<and> length (members d') = length (members d)
     \<and> (\<forall>i < length (members d).
          if m_id (members d ! i) = id' \<and> m_tenantId (members d ! i) = tenantId
             \<and> m_updatedAt (members d ! i) < now
          then members d' ! i = foldl assign (members d ! i) (update_sets data now)
               \<and> m_updatedAt (members d' ! i) = now
          else members d' ! i = members d ! i)
     \<and> ((\<forall>m \<in> set (members d).
            m_id m = id' \<and> m_tenantId m = tenantId \<longrightarrow> now \<le> m_updatedAt m)
          \<longrightarrow> d' = d
              \<and> update_result d (update_sets data now) id' tenantId now = Inr (0, d))"
proof -
  assume a: "update d now id' tenantId data = (res, d')"
  let ?f = "\<lambda>m. if update_where id' tenantId now m
                 then foldl assign m (update_sets data now) else m"
  from a have r: "res = Inr ()" and d': "d' = d\<lparr>members := map ?f (members d)\<rparr>"
    by (simp_all add: update_eq)
  have len: "length (members d') = length (members d)" by (simp add: d')
  have rows: "\<forall>i < length (members d).
          if m_id (members d ! i) = id' \<and> m_tenantId (members d ! i) = tenantId
             \<and> m_updatedAt (members d ! i) < now
          then members d' ! i = foldl assign (members d ! i) (update_sets data now)
               \<and> m_updatedAt (members d' ! i) = now
          else members d' ! i = members d ! i"
    by (simp add: d' update_where_def foldl_assign_updatedAt)
  have stale: "(\<forall>m \<in> set (members d).
            m_id m = id' \<and> m_tenantId m = tenantId \<longrightarrow> now \<le> m_updatedAt m)
          \<longrightarrow> d' = d
              \<and> update_result d (update_sets data now) id' tenantId now = Inr (0, d)"
  proof
    assume s: "\<forall>m \<in> set (members d).
            m_id m = id' \<and> m_tenantId m = tenantId \<longrightarrow> now \<le> m_updatedAt m"
    then have n: "\<forall>m \<in> set (members d). \<not> update_where id' tenantId now m"
      by (auto simp: update_where_def)
    then have "map ?f (members d) = members d" by (intro map_idI) simp
    moreover have "[m \<leftarrow> members d. update_where id' tenantId now m] = []"
      using n by (simp add: filter_empty_conv)
    ultimately show "d' = d
        \<and> update_result d (update_sets data now) id' tenantId now = Inr (0, d)"
      by (simp add: d' update_result_ok)
  qed
  from r len rows stale show ?thesis by blast
qed

theorem update_optimistic_guard_witness:
  "update example_db 100 ''m-ann'' ''T1'' rename_ann = (Inr (), example_db)
   \<and> update_result example_db (update_sets rename_ann 100) ''m-ann'' ''T1'' 100
       = Inr (0, example_db)
   \<and> members (snd (update example_db 101 ''m-ann'' ''T1'' rename_ann))
       = [ann\<lparr>m_displayName := ''Anna'', m_updatedAt := 101\<rparr>, bob]"
proof -
  have s: "\<forall>m \<in> set (members example_db).
            m_id m = ''m-ann'' \<and> m_tenantId m = ''T1'' \<longrightarrow> 100 \<le> m_updatedAt m"
    by (simp add: example_db_def ann_def bob_def)
  have e: "update example_db 100 ''m-ann'' ''T1'' rename_ann
      = (fst (update example_db 100 ''m-ann'' ''T1'' rename_ann),
         snd (update example_db 100 ''m-ann'' ''T1'' rename_ann))"
    by simp
  have e': "update example_db 101 ''m-ann'' ''T1'' rename_ann
      = (fst (update example_db 101 ''m-ann'' ''T1'' rename_ann),
         snd (update example_db 101 ''m-ann'' ''T1'' rename_ann))"
    by simp
  have l: "length (members example_db) = 2" by (simp add: example_db_def)
  have a: "members example_db ! 0 = ann" "members example_db ! 1 = bob"
    by (simp_all add: example_db_def)
  from update_optimistic_guard [OF e] s
  have one: "update example_db 100 ''m-ann'' ''T1'' rename_ann = (Inr (), example_db)"
    and two: "update_result example_db (update_sets rename_ann 100) ''m-ann'' ''T1'' 100
       = Inr (0, example_db)"
    by (metis prod.collapse)+
  from update_optimistic_guard [OF e']
  have len: "length (members (snd (update example_db 101 ''m-ann'' ''T1'' rename_ann))) = 2"
    and r0: "members (snd (update example_db 101 ''m-ann'' ''T1'' rename_ann)) ! 0
               = foldl assign ann (update_sets rename_ann 101)"
    and r1: "members (snd (update example_db 101 ''m-ann'' ''T1'' rename_ann)) ! 1 = bob"
    using l a by (auto simp: ann_def bob_def split: if_splits)
  have "foldl assign ann (update_sets rename_ann 101)
          = ann\<lparr>m_displayName := ''Anna'', m_updatedAt := 101\<rparr>"
    by (simp add: update_sets_def rename_ann_def assign_def)
  with len r0 r1 have three: "members (snd (update example_db 101 ''m-ann'' ''T1'' rename_ann))
       = [ann\<lparr>m_displayName := ''Anna'', m_updatedAt := 101\<rparr>, bob]"
    by (intro nth_equalityI) (auto simp: less_Suc_eq numeral_2_eq_2)
  from one two three show ?thesis by simp
qed

subsection \<open>removeIdentities\<close>

text \<open>
  For a non-empty list of plain identities the statement is the delete the method
  means: it deletes the rows of the member and tenant whose pair is requested, and a
  number of deleted rows other than the number requested is raised as an error.
\<close>

lemma removeIdentities_result_plain:
  assumes "identities \<noteq> []" "list_all plain_identity identities"
  shows "removeIdentities_result E d q memberId tenantId
           (join '', '' (map format_identity identities))
     = Inr (length [mi \<leftarrow> memberIdentities d.
                     removeIdentities_where memberId tenantId (map pair_of identities) mi],
            d\<lparr>memberIdentities :=
                [mi \<leftarrow> memberIdentities d.
                   \<not> removeIdentities_where memberId tenantId (map pair_of identities) mi]\<rparr>)"
  by (simp add: removeIdentities_result_def read_pairs_format [OF assms])

lemma removeIdentities_plain:
  assumes "identities \<noteq> []" "list_all plain_identity identities"
  shows "removeIdentities E d memberId tenantId identities
     = (checkUpdateRowCount
          (length [mi \<leftarrow> memberIdentities d.
                     removeIdentities_where memberId tenantId (map pair_of identities) mi])
          (length identities),
        d\<lparr>memberIdentities :=
            [mi \<leftarrow> memberIdentities d.
               \<not> removeIdentities_where memberId tenantId (map pair_of identities) mi]\<rparr>)"
  by (simp add: removeIdentities_def removeIdentities_result_plain [OF assms])

text \<open>
  A text the model does not read, here one that ends the delete and begins a second
  statement: the outcome is the engine's answer, and the row count compared with the
  number requested is the one the engine reports for the text as a whole.
\<close>

lemma removeIdentities_unread:
  assumes "read_pairs (join '', '' (map format_identity identities)) = Unread"
  shows "removeIdentities E d memberId tenantId identities
     = (case delete_answer E (removeIdentities_query memberId tenantId identities) d of
          Inl e \<Rightarrow> (Inl e, d)
        | Inr (rowCount, d') \<Rightarrow> (checkUpdateRowCount rowCount (length identities), d'))"
  by (simp add: removeIdentities_def removeIdentities_result_def assms)

lemma removeIdentities_second_statement:
  "read_pairs (join '', ''
     (map format_identity [identity ''github'' ''x')); select 1 where (('a') in ('a'']))
     = Unread"
  by code_simp

text \<open>
  Claim C2.  \<^verbatim>\<open>removeIdentities\<close> writes the pairs into the text between the
  parentheses after \<^verbatim>\<open>in\<close>.  A username with a quote in it ends its string constant
  early: the text below holds two pairs.  The member does not own the requested pair, so
  a delete by exact match of the requested pair deletes no row, one fewer than
  requested.  The statement sent deletes the row of a pair that was not requested; its
  row count is the number requested, and the call returns normally.
\<close>

theorem removeIdentities_deletes_other_pair:
  \<open>q_text (removeIdentities_query ''m-bob'' ''T1''
             [identity ''github'' ''x'), ('github', 'bob''])
     = ''delete from "memberIdentities" where "memberId" = $(memberId) and''
       @ '' "tenantId" = $(tenantId) and ("platform", "username") in ''
       @ ''(('github', 'x'), ('github', 'bob'));''
   \<and> \<not> owns example_db ''T1'' ''github'' ''x'), ('github', 'bob'' ''m-bob''
   \<and> [mi \<leftarrow> memberIdentities example_db.
         removeIdentities_where ''m-bob'' ''T1''
           (map pair_of [identity ''github'' ''x'), ('github', 'bob'']) mi] = []
   \<and> removeIdentities E example_db ''m-bob'' ''T1''
         [identity ''github'' ''x'), ('github', 'bob'']
       = (Inr (),
          example_db\<lparr>memberIdentities := [identity_row ''m-ann'' ''T1'' ''github'' ''ann'']\<rparr>)
   \<and> identity_row ''m-bob'' ''T1'' ''github'' ''bob'' \<in> set (memberIdentities example_db)\<close>
  by code_simp

subsection \<open>getMemberIdsAndEmailsAndCount\<close>

text \<open>
  Claim C8.  With \<^verbatim>\<open>countOnly\<close> set, the method sends no statement but the count
  query; when it returns, the count query is the one statement it sent, the member list
  is empty, and the total is the number of rows of the join of members and segment
  links, which is the total the same call returns for any other value of
  \<^verbatim>\<open>countOnly\<close>.
\<close>

theorem countOnly_count_query_only:
  "getMemberIdsAndEmailsAndCount E d tenantId segmentIds (opts\<lparr>o_countOnly := Some True\<rparr>)
     = (qs, res)
   \<Longrightarrow> (qs = [] \<or> qs = [count_query tenantId segmentIds])
     \<and> (\<forall>r. res = Inr r \<longrightarrow>
            qs = [count_query tenantId segmentIds] \<and> r_members r = []
            \<and> totalCount r = length (segment_members d tenantId segmentIds)
            \<and> (\<forall>c qs' r'.
                  getMemberIdsAndEmailsAndCount E d tenantId segmentIds
                    (opts\<lparr>o_countOnly := c\<rparr>)
                    = (qs', Inr r')
                  \<longrightarrow> totalCount r' = totalCount r))"
  by (auto simp: getMemberIdsAndEmailsAndCount_def Let_def one_def
           split: list.splits option.splits sum.splits if_splits)

theorem countOnly_count_query_only_witness:
  "getMemberIdsAndEmailsAndCount refusing example_db ''T1'' [''s1''] (no_options\<lparr>o_countOnly := Some True\<rparr>)
     = ([count_query ''T1'' [''s1'']], Inr \<lparr>totalCount = 2, r_members = []\<rparr>)
   \<and> getMemberIdsAndEmailsAndCount refusing example_db ''T1'' [''s1''] (no_options\<lparr>o_countOnly := Some False\<rparr>)
     = ([count_query ''T1'' [''s1''], list_query ''T1'' [''s1''] (the (order_column ''joinedAt'') @ '' desc'') 20 0],
        Inr \<lparr>totalCount = 2,
             r_members = [(''m-ann'', [''ann@x.io'']), (''m-bob'', [''bob@x.io''])]\<rparr>)
   \<and> totalCount \<lparr>totalCount = 2,
         r_members = [(''m-ann'', [''ann@x.io'']), (''m-bob'', [''bob@x.io''])]\<rparr>
       = totalCount \<lparr>totalCount = 2, r_members = []\<rparr>"
proof -
  have a: "getMemberIdsAndEmailsAndCount refusing example_db ''T1'' [''s1'']
             (no_options\<lparr>o_countOnly := Some True\<rparr>)
           = ([count_query ''T1'' [''s1'']], Inr \<lparr>totalCount = 2, r_members = []\<rparr>)"
    by code_simp
  have b: "getMemberIdsAndEmailsAndCount refusing example_db ''T1'' [''s1'']
             (no_options\<lparr>o_countOnly := Some False\<rparr>)
           = ([count_query ''T1'' [''s1''],
               list_query ''T1'' [''s1''] (the (order_column ''joinedAt'') @ '' desc'') 20 0],
              Inr \<lparr>totalCount = 2,
                   r_members = [(''m-ann'', [''ann@x.io'']), (''m-bob'', [''bob@x.io''])]\<rparr>)"
    by code_simp
  from countOnly_count_query_only [OF a] b
  have "totalCount \<lparr>totalCount = 2,
           r_members = [(''m-ann'', [''ann@x.io'']), (''m-bob'', [''bob@x.io''])]\<rparr>
         = totalCount \<lparr>totalCount = 2, r_members = []\<rparr>"
    by blast
  with a b show ?thesis by blast
qed

subsection \<open>update and weakIdentities\<close>

lemma keys_field: "fst ` set (field k x) = (case x of None \<Rightarrow> {} | Some v \<Rightarrow> {k})"
  by (cases x) auto

lemma update_sets_weak_absent:
  "u_weakIdentities data = None \<Longrightarrow> ''weakIdentities'' \<notin> fst ` set (update_sets data now)"
  by (simp add: update_sets_def image_Un keys_field split: option.split)

lemma update_sets_weak_present:
  "u_weakIdentities data = Some ws \<Longrightarrow>
   (''weakIdentities'', if ws = [] then VObjArray ws else VJsonText ws)
     \<in> set (update_sets data now)"
  by (simp add: update_sets_def in_field)

lemma foldl_assign_update_sets_weak:
  "m_weakIdentities (foldl assign m (update_sets data now)) =
     (case u_weakIdentities data of
        None \<Rightarrow> m_weakIdentities m
      | Some ws \<Rightarrow> if ws = [] then JEmptyObject else JArray ws)"
proof (cases "u_weakIdentities data")
  case None
  then show ?thesis
    by (simp add: foldl_assign_weak_untouched update_sets_weak_absent)
next
  case (Some ws)
  have "m_weakIdentities (foldl assign m (update_sets data now))
      = m_weakIdentities
          (assign m (''weakIdentities'', if ws = [] then VObjArray ws else VJsonText ws))"
    using update_sets_distinct update_sets_weak_present [OF Some]
    by (rule foldl_assign_weak)
  then show ?thesis using Some by (simp add: assign_def)
qed

lemma update_weakIdentities:
  assumes "update d now id' tenantId data = (res, d')" and "i < length (members d)"
  shows "m_weakIdentities (members d' ! i) =
     (if update_where id' tenantId now (members d ! i) then
        (case u_weakIdentities data of
           None \<Rightarrow> m_weakIdentities (members d ! i)
         | Some ws \<Rightarrow> if ws = [] then JEmptyObject else JArray ws)
      else m_weakIdentities (members d ! i))"
  using assms by (auto simp: update_eq foldl_assign_update_sets_weak)

text \<open>
  Claim C6.  An update whose \<^verbatim>\<open>data.weakIdentities\<close> is the empty list: the key is among
  \<^verbatim>\<open>Object.keys(data)\<close>, so the column is part of the statement, and the stored value
  is overwritten with what the engine reads from the empty array.
\<close>

theorem update_empty_weakIdentities_overwrites:
  "map m_weakIdentities (members example_db) = [JArray [identity ''slack'' ''ann''], JArray []]
   \<and> update example_db 101 ''m-ann'' ''T1'' clear_weak
       = (Inr (),
          example_db\<lparr>members := [ann\<lparr>m_weakIdentities := JEmptyObject, m_updatedAt := 101\<rparr>,
                                  bob]\<rparr>)"
  by code_simp

subsection \<open>The orderBy argument\<close>

lemma split_no_separator: "c \<notin> set s \<Longrightarrow> split c s = [s]"
  by (induction s) auto

lemma split_not_Nil: "split c s \<noteq> []"
  by (induction s) (auto split: list.splits)

lemma split_separator: "c \<in> set s \<Longrightarrow> \<exists>f p rest. split c s = f # p # rest"
proof (induction s)
  case Nil
  then show ?case by simp
next
  case (Cons x s)
  show ?case
  proof (cases "x = c")
    case True
    then show ?thesis using split_not_Nil [of c s] by (cases "split c s") auto
  next
    case False
    with Cons obtain f p rest where "split c s = f # p # rest" by auto
    with False show ?thesis by simp
  qed
qed

lemma order_column_None:
  "order_column f = None \<longleftrightarrow> f \<notin> {''joinedAt'', ''displayName'', ''reach'', ''score''}"
  by (simp add: order_column_def)

lemma unknown_field_rejected:
  assumes "CHR ''_'' \<in> set orderBy"
    and "hd (split CHR ''_'' orderBy) \<notin> {''joinedAt'', ''displayName'', ''reach'', ''score''}"
  shows "getMemberIdsAndEmailsAndCount E d tenantId segmentIds
           (opts\<lparr>o_orderBy := Some orderBy\<rparr>)
           = ([], Inl (Error (''Invalid order by: '' @ orderBy @ ''!'')))"
proof -
  from assms(1) obtain f p rest where s: "split CHR ''_'' orderBy = f # p # rest"
    using split_separator by blast
  with assms(2) have "order_column f = None" by (simp add: order_column_None)
  with s show ?thesis by (simp add: getMemberIdsAndEmailsAndCount_def)
qed

lemma no_direction_TypeError:
  assumes "CHR ''_'' \<notin> set orderBy"
  shows "getMemberIdsAndEmailsAndCount E d tenantId segmentIds
           (opts\<lparr>o_orderBy := Some orderBy\<rparr>)
           = ([], Inl (TypeError ''Cannot read properties of undefined (reading 'toLowerCase')''))"
  using split_no_separator [OF assms] by (simp add: getMemberIdsAndEmailsAndCount_def)

text \<open>
  Claim C7.  An \<^verbatim>\<open>orderBy\<close> without an underscore: the direction is read before the
  field is looked at, and the call fails on \<^verbatim>\<open>orderByParts[1].toLowerCase()\<close>; with an
  underscore the unknown field is reported.  Neither call sends a statement.
\<close>

theorem orderBy_without_direction:
  "getMemberIdsAndEmailsAndCount E example_db ''T1'' [''s1''] (no_options\<lparr>o_orderBy := Some ''bogus''\<rparr>)
     = ([], Inl (TypeError ''Cannot read properties of undefined (reading 'toLowerCase')''))
   \<and> getMemberIdsAndEmailsAndCount E example_db ''T1'' [''s1''] (no_options\<lparr>o_orderBy := Some ''bogus_ASC''\<rparr>)
     = ([], Inl (Error ''Invalid order by: bogus_ASC!''))"
  by code_simp

subsection \<open>Statement texts\<close>

lemma findMember_query_text:
  "q_text (findMember_query tenantId segmentId platform username)
     = q_text (findMember_query tenantId' segmentId' platform' username')"
  by (simp add: findMember_query_def)

text \<open>
  Claim C5.  The statement texts of \<^verbatim>\<open>findIdentities\<close> and \<^verbatim>\<open>removeIdentities\<close> hold
  the platform and username values: two calls that differ in a username send different
  texts.
\<close>

theorem identities_written_into_statement_text:
  \<open>q_text (findIdentities_query ''T1'' [identity ''github'' ''ann''] None)
     \<noteq> q_text (findIdentities_query ''T1'' [identity ''github'' ''bob''] None)
   \<and> q_text (removeIdentities_query ''m-ann'' ''T1'' [identity ''github'' ''ann''])
     \<noteq> q_text (removeIdentities_query ''m-ann'' ''T1'' [identity ''github'' ''bob''])
   \<and> q_text (removeIdentities_query ''m-ann'' ''T1'' [identity ''github'' ''ann''])
     = ''delete from "memberIdentities" where "memberId" = $(memberId) and''
       @ '' "tenantId" = $(tenantId) and ("platform", "username") in (('github', 'ann'));''\<close>
  by code_simp

subsection \<open>findIdentities\<close>







text \<open>
  Claim C4.  \<^verbatim>\<open>findIdentities\<close> writes the candidate pairs into the text after
  \<^verbatim>\<open>values\<close>, and the engine reads them back from the text.  A username with a quote
  in it ends its string constant early: the text below holds two pairs, and the result
  has a key that is the string of no input pair.  A stored identity whose name has a
  quote cannot be looked up, and an empty candidate list is a syntax error.
\<close>

theorem findIdentities_reads_text_back:
  "findIdentities E example_db ''T1'' [identity ''github'' ''x'), ('github', 'bob''] None
     = Inr [(''github:bob'', ''m-bob'')]
   \<and> i_platform (identity ''github'' ''x'), ('github', 'bob'') @ '':''
         @ i_username (identity ''github'' ''x'), ('github', 'bob'')
       \<noteq> ''github:bob''
   \<and> findIdentities E obrien_db ''T1'' [identity ''github'' ''O'Brien''] None = Inl SyntaxError
   \<and> findIdentities E example_db ''T1'' [] None = Inl SyntaxError"
  by code_simp

subsection \<open>Tenant scope of the lookups\<close>












end
